theory Spec2Isabelle
  imports Complex_Main "HOL-Library.Char_ord" "HOL-Library.List_Lexorder" "HOL-Library.Multiset"
begin

section \<open>Task-tracker analysis: loader and metrics engine\<close>

text \<open>
  A shallow embedding of \<^verbatim>\<open>scripts/analysis.py\<close> (\<^verbatim>\<open>load_data\<close>,
  \<^verbatim>\<open>calculate_metrics\<close>, \<^verbatim>\<open>get_metrics_by_category\<close>) and of \<^verbatim>\<open>main\<close> in
  \<^verbatim>\<open>analyze_tasks.py\<close>.

  Conventions of the embedding.
  \<^item> A data frame is the list of its rows, in row order; a row is a record of its columns.
  \<^item> Python integers are \<^typ>\<open>int\<close>. A 64-bit float is modelled by its exact value: a
    finite float is a \<^typ>\<open>real\<close> and arithmetic on it is exact, so rounding is not part
    of the model. The special values are explicit: a nullable float column holds
    \<^typ>\<open>real option\<close> (\<open>None\<close> is the missing value), and a numpy scalar result is a
    \<^verbatim>\<open>float64\<close> below, with not-a-number and the two infinities.
  \<^item> Every exception of the source that the model covers is a value of \<^verbatim>\<open>error\<close>; a
    function that can raise returns \<open>error + 'a\<close>, with \<open>Inl\<close> for the raise.
  \<^item> Printing is not modelled: no \<^verbatim>\<open>print\<close> of the source raises on the values that
    reach it (numpy division by a zero length gives not-a-number, and formatting
    accepts it).
  \<^item> A cell of a column may be missing (an empty cell of the file): the resolution
    timestamp, the resolution code, the category, and both columns of the lookup
    table. The creation timestamp is present in every row; the filter on it would
    drop a row without one. Timestamps are within the signed 64-bit range, as
    \<^verbatim>\<open>read_csv\<close> parses them; where the code computes on a 64-bit integer column, the
    wrap-around is written out. A category is text or a number.
  \<^item> What depends on the installed pandas and Python rather than on this code is a
    parameter, the \<^verbatim>\<open>runtime\<close> below.
\<close>

subsection \<open>Errors and floating-point scalars\<close>

datatype error = FileNotFoundError | OutOfBoundsDatetime | ZeroDivisionError | TypeError

datatype float64 = Val real | PosInf | NegInf | NaN

text \<open>Python's \<^verbatim>\<open>a / b\<close> on two \<^verbatim>\<open>int\<close>s: true division, raising on a zero divisor.\<close>

definition py_div :: "int \<Rightarrow> int \<Rightarrow> error + real" where
  "py_div a b = (if b = 0 then Inl ZeroDivisionError else Inr (real_of_int a / real_of_int b))"

text \<open>
  \<^verbatim>\<open>numpy.int64 / int\<close>: numpy's true division. A zero divisor does not raise; it
  gives not-a-number for \<open>0 / 0\<close> and an infinity otherwise (with a warning only).
\<close>

definition np_true_divide :: "int \<Rightarrow> int \<Rightarrow> float64" where
  "np_true_divide a b =
     (if b \<noteq> 0 then Val (real_of_int a / real_of_int b)
      else if a = 0 then NaN
      else if 0 < a then PosInf else NegInf)"

text \<open>A \<^verbatim>\<open>float64\<close> times a finite constant.\<close>

fun np_mul :: "float64 \<Rightarrow> real \<Rightarrow> float64" where
  "np_mul (Val x) c = Val (x * c)"
| "np_mul NaN c = NaN"
| "np_mul PosInf c = (if 0 < c then PosInf else if c < 0 then NegInf else NaN)"
| "np_mul NegInf c = (if 0 < c then NegInf else if c < 0 then PosInf else NaN)"

text \<open>The comparison \<^verbatim>\<open>x <= y\<close> of two floats: false as soon as one is not-a-number.\<close>

fun float_le :: "float64 \<Rightarrow> float64 \<Rightarrow> bool" where
  "float_le NaN y = False"
| "float_le x NaN = False"
| "float_le NegInf y = True"
| "float_le x PosInf = True"
| "float_le (Val x) (Val y) = (x \<le> y)"
| "float_le x y = False"

subsection \<open>Series reductions\<close>

text \<open>
  A float column (\<^verbatim>\<open>pandas.Series\<close>) with missing values. Every reduction skips the
  missing values (\<^verbatim>\<open>skipna\<close>) and gives not-a-number when nothing is left.
\<close>

type_synonym series = "real option list"

fun dropna :: "series \<Rightarrow> real list" where
  "dropna [] = []"
| "dropna (None # s) = dropna s"
| "dropna (Some x # s) = x # dropna s"

definition series_mean :: "series \<Rightarrow> float64" where
  "series_mean s =
     (let xs = dropna s in
      if xs = [] then NaN else Val (sum_list xs / real (length xs)))"

text \<open>The median: the middle of the sorted values, or the mean of the two middle ones.\<close>

definition series_median :: "series \<Rightarrow> float64" where
  "series_median s =
     (let xs = sort (dropna s); n = length xs in
      if n = 0 then NaN
      else if odd n then Val (xs ! (n div 2))
      else Val ((xs ! (n div 2 - 1) + xs ! (n div 2)) / 2))"

definition series_min :: "series \<Rightarrow> float64" where
  "series_min s = (case dropna s of [] \<Rightarrow> NaN | x # xs \<Rightarrow> Val (fold min xs x))"

definition series_max :: "series \<Rightarrow> float64" where
  "series_max s = (case dropna s of [] \<Rightarrow> NaN | x # xs \<Rightarrow> Val (fold max xs x))"

text \<open>The sample standard deviation (\<^verbatim>\<open>ddof = 1\<close>): undefined below two values.\<close>

definition series_std :: "series \<Rightarrow> float64" where
  "series_std s =
     (let xs = dropna s; n = length xs in
      if n \<le> 1 then NaN
      else let mu = sum_list xs / real n in
        Val (sqrt (sum_list (map (\<lambda>x. (x - mu)\<^sup>2) xs) / real (n - 1))))"

text \<open>
  \<^verbatim>\<open>Series.quantile(q)\<close> with the default linear interpolation: the virtual index
  \<open>q * (n - 1)\<close> into the sorted values, interpolated between its two neighbours.
  Every call of the source has \<open>0 \<le> q \<le> 1\<close>.
\<close>

definition lerp :: "real list \<Rightarrow> real \<Rightarrow> real" where
  "lerp xs pos =
     (let lo = nat \<lfloor>pos\<rfloor>; hi = min (lo + 1) (length xs - 1); g = pos - real lo in
      xs ! lo + (xs ! hi - xs ! lo) * g)"

definition series_quantile :: "series \<Rightarrow> real \<Rightarrow> float64" where
  "series_quantile s q =
     (let xs = sort (dropna s); n = length xs in
      if n = 0 then NaN else Val (lerp xs (q * real (n - 1))))"

text \<open>\<^verbatim>\<open>(s <= t).sum()\<close> and \<^verbatim>\<open>(s > t).sum()\<close>: a comparison with a missing value is false.\<close>

definition count_le :: "series \<Rightarrow> real \<Rightarrow> int" where
  "count_le s t = int (length (filter (\<lambda>v. case v of None \<Rightarrow> False | Some x \<Rightarrow> x \<le> t) s))"

definition count_gt :: "series \<Rightarrow> real \<Rightarrow> int" where
  "count_gt s t = int (length (filter (\<lambda>v. case v of None \<Rightarrow> False | Some x \<Rightarrow> t < x) s))"

subsection \<open>Tables\<close>

text \<open>
  A cell of the category column: text, a number (when pandas parses the whole column as
  numbers), or missing (\<^verbatim>\<open>nan\<close>). The comparison \<^verbatim>\<open>df['category'] == category\<close> is
  false on a missing value, on either side.
\<close>

datatype label = Text string | Number real | Missing

fun label_eq :: "label \<Rightarrow> label \<Rightarrow> bool" where
  "label_eq Missing b = False"
| "label_eq a Missing = False"
| "label_eq a b = (a = b)"

fun text_of :: "label \<Rightarrow> string option" where
  "text_of (Text t) = Some t"
| "text_of l = None"

fun number_of :: "label \<Rightarrow> real option" where
  "number_of (Number x) = Some x"
| "number_of l = None"

fun is_text :: "label \<Rightarrow> bool" where
  "is_text (Text t) = True"
| "is_text l = False"

fun is_number :: "label \<Rightarrow> bool" where
  "is_number (Number x) = True"
| "is_number l = False"

text \<open>The columns of \<^verbatim>\<open>issues.csv\<close> that the code reads, and the lookup table.\<close>

record issue =
  created :: int
  resolved :: "int option"
  category :: label
  resolution :: "int option"

record resolution_row =
  id_col :: "int option"
  key_col :: "string option"

text \<open>
  The cleaned table: the issue columns, the two instants (the resolution instant may be
  missing), the elapsed days and the joined name.
\<close>

record cleaned_issue = issue +
  created_dt :: int
  resolved_dt :: "int option"
  days_to_resolve :: "real option"
  resolution_name :: "string option"

text \<open>
  What \<^verbatim>\<open>pd.read_csv\<close> finds: for each path, the parsed table or nothing. A path
  with no file raises \<^verbatim>\<open>FileNotFoundError\<close>.
\<close>

record filesystem =
  issues_files :: "string \<rightharpoonup> issue list"
  resolutions_files :: "string \<rightharpoonup> resolution_row list"

definition read_csv :: "(string \<rightharpoonup> 'a) \<Rightarrow> string \<Rightarrow> error + 'a" where
  "read_csv files path = (case files path of None \<Rightarrow> Inl FileNotFoundError | Some t \<Rightarrow> Inr t)"

text \<open>
  The installed libraries, where their behaviour is not fixed by this code.
  \<^item> \<^verbatim>\<open>to_datetime\<close> is \<^verbatim>\<open>pd.to_datetime(ms / 1000, unit='s')\<close> on one timestamp: the
    instant, or nothing when the timestamp is outside the range of instants. The range
    depends on the version of pandas.
  \<^item> \<^verbatim>\<open>sorted_nan\<close> is the order in which Python's \<^verbatim>\<open>sorted\<close> leaves a list of numbers
    that holds a \<^verbatim>\<open>nan\<close>. Every comparison with \<^verbatim>\<open>nan\<close> is false, so the result is
    some rearrangement of the list that depends on the sorting algorithm.
\<close>

record runtime =
  to_datetime :: "int \<Rightarrow> int option"
  sorted_nan :: "label list \<Rightarrow> label list"

subsection \<open>Loading and cleaning\<close>

text \<open>
  Without \<^verbatim>\<open>errors='coerce'\<close> the conversion of a column raises at a value out of range.
\<close>

fun to_datetime_column :: "runtime \<Rightarrow> int list \<Rightarrow> error + int list" where
  "to_datetime_column rt [] = Inr []"
| "to_datetime_column rt (ms # rest) =
     (case to_datetime rt ms of
        None \<Rightarrow> Inl OutOfBoundsDatetime
      | Some t \<Rightarrow>
          (case to_datetime_column rt rest of Inl e \<Rightarrow> Inl e | Inr ts \<Rightarrow> Inr (t # ts)))"

text \<open>
  \<^verbatim>\<open>issues_clean['resolved'] - issues_clean['created']\<close>. When no cell of the resolved
  column is missing, both columns are 64-bit integers and the difference wraps around;
  otherwise the resolved column holds floats and the difference is a float.
\<close>

definition wrap64 :: "int \<Rightarrow> int" where
  "wrap64 x = (x + 2 ^ 63) mod 2 ^ 64 - 2 ^ 63"

definition elapsed_ms :: "bool \<Rightarrow> int \<Rightarrow> int \<Rightarrow> real" where
  "elapsed_ms int64 r c =
     (if int64 then real_of_int (wrap64 (r - c)) else real_of_int r - real_of_int c)"

text \<open>
  The derived columns of one row: \<^verbatim>\<open>resolved_dt\<close> (coerced: missing when the timestamp
  is missing or out of range) and \<^verbatim>\<open>days_to_resolve\<close>, and the left join of its
  resolution code: one output row per lookup row with the same code, or one row with no
  name. A missing code matches a missing code of the lookup table, as pandas joins.
\<close>

definition derive :: "runtime \<Rightarrow> bool \<Rightarrow> issue \<Rightarrow> int \<Rightarrow> string option \<Rightarrow> cleaned_issue" where
  "derive rt int64 i cdt name =
     \<lparr>created = created i, resolved = resolved i, category = category i,
      resolution = resolution i,
      created_dt = cdt,
      resolved_dt = (case resolved i of None \<Rightarrow> None | Some r \<Rightarrow> to_datetime rt r),
      days_to_resolve =
        (case resolved i of None \<Rightarrow> None
         | Some r \<Rightarrow> Some (elapsed_ms int64 r (created i) / (1000 * 60 * 60 * 24))),
      resolution_name = name\<rparr>"

definition merge_left ::
  "runtime \<Rightarrow> bool \<Rightarrow> (issue \<times> int) list \<Rightarrow> resolution_row list \<Rightarrow> cleaned_issue list" where
  "merge_left rt int64 rows resolutions =
     concat (map (\<lambda>(i, cdt).
       (case filter (\<lambda>l. id_col l = resolution i) resolutions of
          [] \<Rightarrow> [derive rt int64 i cdt None]
        | ms \<Rightarrow> map (\<lambda>l. derive rt int64 i cdt (key_col l)) ms)) rows)"

definition load_data ::
  "runtime \<Rightarrow> filesystem \<Rightarrow> string \<Rightarrow> string \<Rightarrow> error + cleaned_issue list" where
  "load_data rt fs issues_csv resolutions_csv =
     (case read_csv (issues_files fs) issues_csv of
        Inl e \<Rightarrow> Inl e
      | Inr issues \<Rightarrow>
     (case read_csv (resolutions_files fs) resolutions_csv of
        Inl e \<Rightarrow> Inl e
      | Inr resolutions \<Rightarrow>
     (let int64 = list_all (\<lambda>i. resolved i \<noteq> None) issues;
          issues_clean = filter (\<lambda>i. created i > 1000000000000) issues
      in case to_datetime_column rt (map created issues_clean) of
        Inl e \<Rightarrow> Inl e
      | Inr created_dts \<Rightarrow>
          Inr (merge_left rt int64 (zip issues_clean created_dts) resolutions))))"

subsection \<open>Scalar metrics\<close>

text \<open>The dictionary that \<^verbatim>\<open>calculate_metrics\<close> returns, one field per key.\<close>

record metrics =
  m_total :: int
  m_resolved :: int
  m_open :: int
  m_resolution_rate :: real
  m_avg_days :: float64
  m_median_days :: float64
  m_min_days :: float64
  m_max_days :: float64
  m_std_days :: float64
  m_p25_days :: float64
  m_p75_days :: float64
  m_p90_days :: float64
  m_p95_days :: float64
  m_sla_1day :: float64
  m_sla_3day :: float64
  m_sla_7day :: float64
  m_sla_14day :: float64
  m_sla_30day :: float64
  m_long_30pct :: float64
  m_long_90pct :: float64

text \<open>
  The resolved subset:
  \<^verbatim>\<open>df[(df['resolved_dt'].notna()) & (df['days_to_resolve'] >= 0)]\<close>.
\<close>

definition nonneg :: "real option \<Rightarrow> bool" where
  "nonneg d = (case d of None \<Rightarrow> False | Some x \<Rightarrow> 0 \<le> x)"

definition resolved_subset :: "cleaned_issue list \<Rightarrow> cleaned_issue list" where
  "resolved_subset df = filter (\<lambda>r. resolved_dt r \<noteq> None \<and> nonneg (days_to_resolve r)) df"

text \<open>
  The dictionary is built key by key, in this order. \<^verbatim>\<open>len(resolved) / total\<close> divides
  two Python integers and is the only expression that can raise; the SLA and overrun
  ratios divide a numpy count by \<^verbatim>\<open>len(resolved)\<close>.
\<close>

definition calculate_metrics :: "cleaned_issue list \<Rightarrow> error + metrics" where
  "calculate_metrics df =
     (let rs = resolved_subset df;
          total = int (length df);
          n = int (length rs);
          days = map days_to_resolve rs
      in case py_div n total of
           Inl e \<Rightarrow> Inl e
         | Inr rate \<Rightarrow> Inr
            \<lparr>m_total = total,
             m_resolved = n,
             m_open = total - n,
             m_resolution_rate = rate * 100,
             m_avg_days = series_mean days,
             m_median_days = series_median days,
             m_min_days = series_min days,
             m_max_days = series_max days,
             m_std_days = series_std days,
             m_p25_days = series_quantile days 0.25,
             m_p75_days = series_quantile days 0.75,
             m_p90_days = series_quantile days 0.90,
             m_p95_days = series_quantile days 0.95,
             m_sla_1day = np_mul (np_true_divide (count_le days 1) n) 100,
             m_sla_3day = np_mul (np_true_divide (count_le days 3) n) 100,
             m_sla_7day = np_mul (np_true_divide (count_le days 7) n) 100,
             m_sla_14day = np_mul (np_true_divide (count_le days 14) n) 100,
             m_sla_30day = np_mul (np_true_divide (count_le days 30) n) 100,
             m_long_30pct = np_mul (np_true_divide (count_gt days 30) n) 100,
             m_long_90pct = np_mul (np_true_divide (count_gt days 90) n) 100\<rparr>)"

subsection \<open>Per-category breakdown\<close>

record category_metrics =
  c_category :: label
  c_total :: int
  c_resolved :: int
  c_resolution_rate :: real
  c_avg_days :: float64
  c_median_days :: float64
  c_p95_days :: float64

text \<open>\<^verbatim>\<open>Series.unique()\<close>: the distinct values, in order of first appearance.\<close>

definition unique :: "'a list \<Rightarrow> 'a list" where
  "unique xs = rev (remdups (rev xs))"

text \<open>
  Python's \<^verbatim>\<open>sorted\<close> on the distinct labels. A list of at most one label is returned
  without a comparison. Text is ordered by code point and numbers by value. Comparing
  text with a number or with a missing value raises \<^verbatim>\<open>TypeError\<close>. Numbers next to a
  missing value raise nothing, and their order is the runtime's; only a rearrangement
  of the list is taken from it.
\<close>

definition py_sorted :: "runtime \<Rightarrow> label list \<Rightarrow> error + label list" where
  "py_sorted rt ls =
     (if length ls \<le> 1 then Inr ls
      else case those (map text_of ls) of
        Some ts \<Rightarrow> Inr (map Text (sort ts))
      | None \<Rightarrow>
     (case those (map number_of ls) of
        Some xs \<Rightarrow> Inr (map Number (sort xs))
      | None \<Rightarrow>
          if list_ex is_text ls then Inl TypeError
          else Inr (if mset (sorted_nan rt ls) = mset ls then sorted_nan rt ls else ls)))"

text \<open>
  One pass of the loop body. \<^verbatim>\<open>cat_resolved\<close> keeps the rows with a resolution instant;
  \<^verbatim>\<open>cat_with_time\<close> keeps, of those, the rows with non-negative elapsed days.
\<close>

definition category_row :: "cleaned_issue list \<Rightarrow> label \<Rightarrow> category_metrics" where
  "category_row df c =
     (let cat_all = filter (\<lambda>r. label_eq (category r) c) df;
          cat_resolved = filter (\<lambda>r. resolved_dt r \<noteq> None) cat_all;
          cat_with_time = filter (\<lambda>r. nonneg (days_to_resolve r)) cat_resolved;
          days = map days_to_resolve cat_with_time
      in \<lparr>c_category = c,
          c_total = int (length cat_all),
          c_resolved = int (length cat_resolved),
          c_resolution_rate =
            (if length cat_all > 0
             then real (length cat_resolved) / real (length cat_all) * 100 else 0),
          c_avg_days = (if length cat_with_time > 0 then series_mean days else Val 0),
          c_median_days = (if length cat_with_time > 0 then series_median days else Val 0),
          c_p95_days = (if length cat_with_time > 0 then series_quantile days 0.95 else Val 0)\<rparr>)"

definition get_metrics_by_category ::
  "runtime \<Rightarrow> cleaned_issue list \<Rightarrow> error + category_metrics list" where
  "get_metrics_by_category rt df =
     (case py_sorted rt (unique (map category df)) of
        Inl e \<Rightarrow> Inl e
      | Inr categories \<Rightarrow> Inr (map (category_row df) categories))"

subsection \<open>The top-level flow\<close>

text \<open>
  The world \<^verbatim>\<open>main\<close> runs in: the files, the installed libraries, and whether
  \<^verbatim>\<open>save_all_visualizations\<close> completes for a list of formats and a table (chart
  rendering is an external collaborator). \<^verbatim>\<open>ensure_output_dir\<close> creates the directory
  if need be and returns its path.
\<close>

record world =
  files :: filesystem
  libraries :: runtime
  renders :: "string list \<Rightarrow> cleaned_issue list \<Rightarrow> bool"

definition ensure_output_dir :: "string \<Rightarrow> string" where
  "ensure_output_dir output_dir = output_dir"

text \<open>
  \<^verbatim>\<open>main\<close> returns \<^verbatim>\<open>True\<close> or \<^verbatim>\<open>False\<close>, or raises. Only \<^verbatim>\<open>FileNotFoundError\<close> is
  caught around \<^verbatim>\<open>load_data\<close>; any exception of the rendering is caught and gives
  \<^verbatim>\<open>False\<close>; the metrics and the breakdown are computed outside both handlers.
\<close>

definition main :: "world \<Rightarrow> error + bool" where
  "main w =
     (let output_dir = ensure_output_dir ''outputs/visualizations'' in
      case load_data (libraries w) (files w) ''data/issues.csv'' ''data/resolutions.csv'' of
        Inl e \<Rightarrow> (if e = FileNotFoundError then Inr False else Inl e)
      | Inr df \<Rightarrow>
         (case calculate_metrics df of
            Inl e \<Rightarrow> Inl e
          | Inr metrics \<Rightarrow>
         (case get_metrics_by_category (libraries w) df of
            Inl e \<Rightarrow> Inl e
          | Inr df_categories \<Rightarrow>
              if renders w [''png''] df \<and> renders w [''pdf''] df then Inr True
              else Inr False)))"

subsection \<open>A sample run\<close>

text \<open>
  A runtime: instants are signed 64-bit counts of nanoseconds, and a list with a
  \<^verbatim>\<open>nan\<close> is left as it is.
\<close>

definition datetime_ns :: "int \<Rightarrow> int option" where
  "datetime_ns ms =
     (if - 9223372036854775807 \<le> ms * 1000000 \<and> ms * 1000000 \<le> 9223372036854775807
      then Some ms else None)"

definition example_runtime :: runtime where
  "example_runtime = \<lparr>to_datetime = datetime_ns, sorted_nan = (\<lambda>ls. ls)\<rparr>"

text \<open>
  Two input files. Of the eight issues, the third sits exactly on the validity floor, the
  fifth is open, and the seventh was resolved one day before it was created. The lookup
  table has no entry for resolution code 3.
\<close>

definition example_issues :: "issue list" where
  "example_issues =
     [\<lparr>created = 1500000000000, resolved = Some 1500086400000, category = Text ''Bug'',
       resolution = Some 1\<rparr>,
      \<lparr>created = 1500000000000, resolved = Some 1500172800000, category = Text ''Task'',
       resolution = Some 1\<rparr>,
      \<lparr>created = 1000000000000, resolved = Some 1000086400000, category = Text ''Bug'',
       resolution = Some 1\<rparr>,
      \<lparr>created = 1500000000000, resolved = Some 1500259200000, category = Text ''Bug'',
       resolution = Some 2\<rparr>,
      \<lparr>created = 1500000000000, resolved = None, category = Text ''Task'',
       resolution = None\<rparr>,
      \<lparr>created = 1500000000000, resolved = Some 1500864000000, category = Text ''Feature'',
       resolution = Some 1\<rparr>,
      \<lparr>created = 1500000000000, resolved = Some 1499913600000, category = Text ''Bug'',
       resolution = Some 3\<rparr>,
      \<lparr>created = 1500000000000, resolved = Some 1502678400000, category = Text ''Bug'',
       resolution = Some 1\<rparr>]"

definition example_resolutions :: "resolution_row list" where
  "example_resolutions =
     [\<lparr>id_col = Some 1, key_col = Some ''Fixed''\<rparr>,
      \<lparr>id_col = Some 2, key_col = Some ''Duplicate''\<rparr>]"

definition example_fs :: filesystem where
  "example_fs =
     \<lparr>issues_files = [''data/issues.csv'' \<mapsto> example_issues],
      resolutions_files = [''data/resolutions.csv'' \<mapsto> example_resolutions]\<rparr>"

text \<open>The cleaned table of the sample files (see \<open>load_data_example\<close> below).\<close>

definition example_table :: "cleaned_issue list" where
  "example_table =
     [\<lparr>created = 1500000000000, resolved = Some 1500086400000, category = Text ''Bug'',
       resolution = Some 1, created_dt = 1500000000000,
       resolved_dt = Some 1500086400000, days_to_resolve = Some 1,
       resolution_name = Some ''Fixed''\<rparr>,
      \<lparr>created = 1500000000000, resolved = Some 1500172800000, category = Text ''Task'',
       resolution = Some 1, created_dt = 1500000000000,
       resolved_dt = Some 1500172800000, days_to_resolve = Some 2,
       resolution_name = Some ''Fixed''\<rparr>,
      \<lparr>created = 1500000000000, resolved = Some 1500259200000, category = Text ''Bug'',
       resolution = Some 2, created_dt = 1500000000000,
       resolved_dt = Some 1500259200000, days_to_resolve = Some 3,
       resolution_name = Some ''Duplicate''\<rparr>,
      \<lparr>created = 1500000000000, resolved = None, category = Text ''Task'',
       resolution = None, created_dt = 1500000000000,
       resolved_dt = None, days_to_resolve = None,
       resolution_name = None\<rparr>,
      \<lparr>created = 1500000000000, resolved = Some 1500864000000, category = Text ''Feature'',
       resolution = Some 1, created_dt = 1500000000000,
       resolved_dt = Some 1500864000000, days_to_resolve = Some 10,
       resolution_name = Some ''Fixed''\<rparr>,
      \<lparr>created = 1500000000000, resolved = Some 1499913600000, category = Text ''Bug'',
       resolution = Some 3, created_dt = 1500000000000,
       resolved_dt = Some 1499913600000, days_to_resolve = Some (- 1),
       resolution_name = None\<rparr>,
      \<lparr>created = 1500000000000, resolved = Some 1502678400000, category = Text ''Bug'',
       resolution = Some 1, created_dt = 1500000000000,
       resolved_dt = Some 1502678400000, days_to_resolve = Some 31,
       resolution_name = Some ''Fixed''\<rparr>]"

text \<open>A table with rows but nothing in its resolved subset: rows four and six of the sample.\<close>

definition unresolved_table :: "cleaned_issue list" where
  "unresolved_table =
     [\<lparr>created = 1500000000000, resolved = None, category = Text ''Task'',
       resolution = None, created_dt = 1500000000000,
       resolved_dt = None, days_to_resolve = None,
       resolution_name = None\<rparr>,
      \<lparr>created = 1500000000000, resolved = Some 1499913600000, category = Text ''Bug'',
       resolution = Some 3, created_dt = 1500000000000,
       resolved_dt = Some 1499913600000, days_to_resolve = Some (- 1),
       resolution_name = None\<rparr>]"

text \<open>
  An issues file of one row whose category cell is empty, and its cleaned table (see
  \<open>load_data_unlabelled\<close> below); and a table with one labelled and one unlabelled row.
\<close>

definition unlabelled_issues :: "issue list" where
  "unlabelled_issues =
     [\<lparr>created = 1500000000000, resolved = Some 1500086400000, category = Missing,
       resolution = Some 1\<rparr>]"

definition unlabelled_fs :: filesystem where
  "unlabelled_fs =
     \<lparr>issues_files = [''data/issues.csv'' \<mapsto> unlabelled_issues],
      resolutions_files = [''data/resolutions.csv'' \<mapsto> example_resolutions]\<rparr>"

definition unlabelled_table :: "cleaned_issue list" where
  "unlabelled_table =
     [\<lparr>created = 1500000000000, resolved = Some 1500086400000, category = Missing,
       resolution = Some 1, created_dt = 1500000000000,
       resolved_dt = Some 1500086400000, days_to_resolve = Some 1,
       resolution_name = Some ''Fixed''\<rparr>]"

definition half_labelled_table :: "cleaned_issue list" where
  "half_labelled_table =
     [\<lparr>created = 1500000000000, resolved = Some 1500086400000, category = Text ''Bug'',
       resolution = Some 1, created_dt = 1500000000000,
       resolved_dt = Some 1500086400000, days_to_resolve = Some 1,
       resolution_name = Some ''Fixed''\<rparr>,
      \<lparr>created = 1500000000000, resolved = Some 1500086400000, category = Missing,
       resolution = Some 1, created_dt = 1500000000000,
       resolved_dt = Some 1500086400000, days_to_resolve = Some 1,
       resolution_name = Some ''Fixed''\<rparr>]"

text \<open>A world with no input files at all.\<close>

definition empty_fs :: filesystem where
  "empty_fs = \<lparr>issues_files = Map.empty, resolutions_files = Map.empty\<rparr>"

section \<open>Properties\<close>

subsection \<open>Linear interpolation over sorted values\<close>

text \<open>
  The interpolated value at a virtual index lies between its two neighbours, so over a
  sorted list it is monotone in the index; at the middle index it is the median.
\<close>

lemma lerp_between:
  assumes srt: "sorted xs" and ne: "xs \<noteq> []" and p0: "0 \<le> p" and pn: "p \<le> real (length xs - 1)"
  shows "xs ! nat \<lfloor>p\<rfloor> \<le> lerp xs p"
    and "lerp xs p \<le> xs ! min (nat \<lfloor>p\<rfloor> + 1) (length xs - 1)"
proof -
  define lo where "lo = nat \<lfloor>p\<rfloor>"
  define hi where "hi = min (lo + 1) (length xs - 1)"
  define g where "g = p - real lo"
  have lo_real: "real lo = of_int \<lfloor>p\<rfloor>"
    using p0 by (simp add: lo_def)
  have g0: "0 \<le> g" and g1: "g \<le> 1"
    unfolding g_def lo_real by linarith+
  have "\<lfloor>p\<rfloor> \<le> int (length xs - 1)"
    using pn by (simp add: floor_le_iff)
  then have lo_le: "lo \<le> length xs - 1"
    by (simp add: lo_def)
  have len: "0 < length xs"
    using ne by simp
  have lo_hi: "lo \<le> hi" and hi_lt: "hi < length xs"
    using lo_le len unfolding hi_def by linarith+
  have ab: "xs ! lo \<le> xs ! hi"
    using srt lo_hi hi_lt by (rule sorted_nth_mono)
  have eq: "lerp xs p = xs ! lo + (xs ! hi - xs ! lo) * g"
    by (simp add: lerp_def Let_def lo_def hi_def g_def)
  have "0 \<le> (xs ! hi - xs ! lo) * g"
    using ab g0 by simp
  then show "xs ! nat \<lfloor>p\<rfloor> \<le> lerp xs p"
    unfolding eq lo_def by linarith
  have "(xs ! hi - xs ! lo) * g \<le> xs ! hi - xs ! lo"
    using ab g1 by (intro mult_left_le) auto
  then show "lerp xs p \<le> xs ! min (nat \<lfloor>p\<rfloor> + 1) (length xs - 1)"
    unfolding eq hi_def lo_def by linarith
qed

lemma lerp_mono:
  assumes srt: "sorted xs" and ne: "xs \<noteq> []"
    and p0: "0 \<le> p" and pp: "p \<le> p'" and pn: "p' \<le> real (length xs - 1)"
  shows "lerp xs p \<le> lerp xs p'"
proof (cases "\<lfloor>p\<rfloor> = \<lfloor>p'\<rfloor>")
  case True
  define lo where "lo = nat \<lfloor>p\<rfloor>"
  define hi where "hi = min (lo + 1) (length xs - 1)"
  have "\<lfloor>p\<rfloor> \<le> int (length xs - 1)"
    using pp pn by (simp add: floor_le_iff)
  then have lo_le: "lo \<le> length xs - 1"
    by (simp add: lo_def)
  have len: "0 < length xs"
    using ne by simp
  have "lo \<le> hi" "hi < length xs"
    using lo_le len unfolding hi_def by linarith+
  with srt have ab: "xs ! lo \<le> xs ! hi"
    by (simp add: sorted_nth_mono)
  have "(xs ! hi - xs ! lo) * (p - real lo) \<le> (xs ! hi - xs ! lo) * (p' - real lo)"
    using ab pp by (intro mult_left_mono) auto
  then show ?thesis
    using True by (simp add: lerp_def Let_def lo_def hi_def)
next
  case False
  have p0': "0 \<le> p'" using p0 pp by simp
  have pn': "p \<le> real (length xs - 1)" using pp pn by simp
  from False pp have lt: "\<lfloor>p\<rfloor> < \<lfloor>p'\<rfloor>"
    using floor_mono [of p p'] by linarith
  have fl0: "0 \<le> \<lfloor>p\<rfloor>" using p0 by simp
  have "\<lfloor>p'\<rfloor> \<le> int (length xs - 1)"
    using pn by (simp add: floor_le_iff)
  then have lo'_le: "nat \<lfloor>p'\<rfloor> \<le> length xs - 1"
    by simp
  have step: "nat \<lfloor>p\<rfloor> + 1 \<le> nat \<lfloor>p'\<rfloor>"
    using lt fl0 by linarith
  then have hi_eq: "min (nat \<lfloor>p\<rfloor> + 1) (length xs - 1) = nat \<lfloor>p\<rfloor> + 1"
    using lo'_le by simp
  have lo'_lt: "nat \<lfloor>p'\<rfloor> < length xs"
    using lo'_le ne by (cases xs) auto
  have "lerp xs p \<le> xs ! (nat \<lfloor>p\<rfloor> + 1)"
    using lerp_between(2) [OF srt ne p0 pn'] hi_eq by simp
  also have "\<dots> \<le> xs ! nat \<lfloor>p'\<rfloor>"
    using srt step lo'_lt by (rule sorted_nth_mono)
  also have "\<dots> \<le> lerp xs p'"
    using lerp_between(1) [OF srt ne p0' pn] .
  finally show ?thesis .
qed

lemma lerp_middle:
  assumes ne: "xs \<noteq> []"
  shows "lerp xs (0.5 * real (length xs - 1)) =
     (if odd (length xs) then xs ! (length xs div 2)
      else (xs ! (length xs div 2 - 1) + xs ! (length xs div 2)) / 2)"
proof (cases "odd (length xs)")
  case True
  then obtain k where k: "length xs = 2 * k + 1"
    by (auto elim: oddE)
  have pos: "0.5 * real (length xs - 1) = real k"
    by (simp add: k)
  show ?thesis
    unfolding pos using True by (simp add: lerp_def Let_def k)
next
  case False
  then obtain j where j: "length xs = 2 * j"
    by (auto elim: evenE)
  have "0 < length xs"
    using ne by simp
  then have "j \<noteq> 0"
    unfolding j by simp
  then obtain k where jk: "j = Suc k"
    by (cases j) auto
  have k: "length xs = 2 * k + 2"
    by (simp add: j jk)
  have pos: "0.5 * real (length xs - 1) = real k + 1 / 2"
    by (simp add: k)
  have fl: "\<lfloor>real k + 1 / 2\<rfloor> = int k"
    by (rule floor_unique) auto
  have lo: "nat \<lfloor>real k + 1 / 2\<rfloor> = k"
    by (simp only: fl nat_int)
  have hi: "min (k + 1) (length xs - 1) = k + 1"
    by (simp add: k)
  have half: "length xs div 2 = k + 1"
    by (simp add: k)
  have "lerp xs (real k + 1 / 2) = xs ! k + (xs ! (k + 1) - xs ! k) * (1 / 2)"
    unfolding lerp_def Let_def lo hi by simp
  also have "\<dots> = (xs ! k + xs ! (k + 1)) / 2"
    by (simp add: field_simps)
  finally show ?thesis
    unfolding pos using False by (simp add: half)
qed

subsection \<open>When the metrics are returned\<close>

lemma calculate_metrics_empty: "calculate_metrics [] = Inl ZeroDivisionError"
  by (simp add: calculate_metrics_def resolved_subset_def py_div_def)

lemma calculate_metrics_returns:
  assumes "df \<noteq> []"
  shows "\<exists>m. calculate_metrics df = Inr m"
  using assms by (simp add: calculate_metrics_def Let_def py_div_def)

lemma calculate_metrics_counts:
  assumes "calculate_metrics df = Inr m"
  shows "df \<noteq> []"
    and "m_total m = int (length df)"
    and "m_resolved m = int (length (resolved_subset df))"
    and "m_open m = int (length df) - int (length (resolved_subset df))"
    and "m_resolution_rate m =
           real_of_int (int (length (resolved_subset df))) / real_of_int (int (length df)) * 100"
  using assms
  by (auto simp: calculate_metrics_def Let_def py_div_def split: if_splits)

lemma calculate_metrics_times:
  assumes "calculate_metrics df = Inr m"
  shows "m_avg_days m = series_mean (map days_to_resolve (resolved_subset df))"
    and "m_median_days m = series_median (map days_to_resolve (resolved_subset df))"
    and "m_p25_days m = series_quantile (map days_to_resolve (resolved_subset df)) 0.25"
    and "m_p75_days m = series_quantile (map days_to_resolve (resolved_subset df)) 0.75"
    and "m_p90_days m = series_quantile (map days_to_resolve (resolved_subset df)) 0.90"
    and "m_p95_days m = series_quantile (map days_to_resolve (resolved_subset df)) 0.95"
  using assms
  by (auto simp: calculate_metrics_def Let_def py_div_def split: if_splits)

lemma calculate_metrics_sla:
  assumes "calculate_metrics df = Inr m"
  shows "m_sla_1day m = np_mul (np_true_divide (count_le (map days_to_resolve (resolved_subset df)) 1)
            (int (length (resolved_subset df)))) 100"
    and "m_sla_3day m = np_mul (np_true_divide (count_le (map days_to_resolve (resolved_subset df)) 3)
            (int (length (resolved_subset df)))) 100"
    and "m_sla_7day m = np_mul (np_true_divide (count_le (map days_to_resolve (resolved_subset df)) 7)
            (int (length (resolved_subset df)))) 100"
    and "m_sla_14day m = np_mul (np_true_divide (count_le (map days_to_resolve (resolved_subset df)) 14)
            (int (length (resolved_subset df)))) 100"
    and "m_sla_30day m = np_mul (np_true_divide (count_le (map days_to_resolve (resolved_subset df)) 30)
            (int (length (resolved_subset df)))) 100"
    and "m_long_30pct m = np_mul (np_true_divide (count_gt (map days_to_resolve (resolved_subset df)) 30)
            (int (length (resolved_subset df)))) 100"
  using assms
  by (auto simp: calculate_metrics_def Let_def py_div_def split: if_splits)

lemma resolved_subset_example:
  "map days_to_resolve (resolved_subset example_table) = [Some 1, Some 2, Some 3, Some 10, Some 31]"
  by (simp add: resolved_subset_def example_table_def nonneg_def)

lemma resolved_subset_unresolved: "resolved_subset unresolved_table = []"
  by (simp add: resolved_subset_def unresolved_table_def nonneg_def)

lemma load_data_example:
  "load_data example_runtime example_fs ''data/issues.csv'' ''data/resolutions.csv'' =
   Inr example_table"
  by (simp add: load_data_def read_csv_def example_fs_def example_issues_def
      example_resolutions_def example_table_def example_runtime_def datetime_ns_def
      merge_left_def derive_def elapsed_ms_def)

lemma load_data_unlabelled:
  "load_data example_runtime unlabelled_fs ''data/issues.csv'' ''data/resolutions.csv'' =
   Inr unlabelled_table"
  by (simp add: load_data_def read_csv_def unlabelled_fs_def unlabelled_issues_def
      example_resolutions_def unlabelled_table_def example_runtime_def datetime_ns_def
      merge_left_def derive_def elapsed_ms_def wrap64_def)

text \<open>
  The wrap-around of the integer difference: in a column with no missing cell, a
  resolution timestamp of \<open>- 2 ^ 63\<close> gives a positive number of elapsed days.
\<close>

lemma elapsed_ms_wraps:
  "elapsed_ms True (- 9223372036854775808) 1500000000000 = 9223370536854775808"
  "elapsed_ms False (- 9223372036854775808) 1500000000000 = - 9223373536854775808"
  by (simp_all add: elapsed_ms_def wrap64_def)

subsection \<open>Ratios of counts\<close>

lemma count_le_mono:
  assumes "t \<le> u"
  shows "count_le s t \<le> count_le s u"
proof -
  have "length (filter (\<lambda>v. case v of None \<Rightarrow> False | Some x \<Rightarrow> x \<le> t) s)
      \<le> length (filter (\<lambda>v. case v of None \<Rightarrow> False | Some x \<Rightarrow> x \<le> u) s)"
  proof (induction s)
    case Nil
    show ?case by simp
  next
    case (Cons v s)
    with assms show ?case
      by (cases v) auto
  qed
  then show ?thesis
    by (simp add: count_le_def)
qed

lemma sla_ratio_mono:
  assumes "0 < n" and "a \<le> b"
  shows "float_le (np_mul (np_true_divide a n) 100) (np_mul (np_true_divide b n) 100)"
  using assms by (simp add: np_true_divide_def divide_right_mono)

subsection \<open>Quantiles of a series\<close>

text \<open>
  The median is the quantile at one half, and quantiles are monotone in \<open>q\<close>. Every
  row of a resolved subset has elapsed days, so none is skipped by the reductions.
\<close>

lemma series_median_quantile: "series_median s = series_quantile s 0.5"
proof (cases "dropna s = []")
  case True
  then show ?thesis
    by (simp add: series_median_def series_quantile_def)
next
  case False
  then have ne: "sort (dropna s) \<noteq> []"
    by (metis length_sort length_0_conv)
  show ?thesis
    using ne lerp_middle [OF ne]
    by (simp add: series_median_def series_quantile_def Let_def)
qed

lemma series_quantile_mono:
  assumes ne: "dropna s \<noteq> []" and q0: "0 \<le> q" and qq: "q \<le> q'" and q1: "q' \<le> 1"
  shows "float_le (series_quantile s q) (series_quantile s q')"
proof -
  define xs where "xs = sort (dropna s)"
  have srt: "sorted xs"
    by (simp add: xs_def)
  have xne: "xs \<noteq> []"
    using ne by (metis xs_def length_sort length_0_conv)
  define r where "r = real (length xs - 1)"
  have r0: "0 \<le> r"
    by (simp add: r_def)
  have p0: "0 \<le> q * r"
    using q0 r0 by simp
  have pp: "q * r \<le> q' * r"
    using qq r0 by (rule mult_right_mono)
  have "q' * r \<le> 1 * r"
    using q1 r0 by (rule mult_right_mono)
  then have pn: "q' * r \<le> real (length xs - 1)"
    by (simp add: r_def)
  have "lerp xs (q * r) \<le> lerp xs (q' * r)"
    using srt xne p0 pp pn by (rule lerp_mono)
  then show ?thesis
    using xne by (simp add: series_quantile_def Let_def xs_def r_def)
qed

lemma dropna_resolved_subset:
  "length (dropna (map days_to_resolve (resolved_subset df))) = length (resolved_subset df)"
proof (induction df)
  case Nil
  show ?case by (simp add: resolved_subset_def)
next
  case (Cons r df)
  then show ?case
    by (cases "days_to_resolve r") (auto simp: resolved_subset_def nonneg_def)
qed

subsection \<open>Labels and their order\<close>

lemma label_eq_iff: "label_eq a b = (a = b \<and> b \<noteq> Missing)"
  by (cases a; cases b) auto

lemma those_text_of:
  assumes "those (map text_of ls) = Some ts"
  shows "ls = map Text ts"
  using assms
proof (induction ls arbitrary: ts)
  case Nil
  then show ?case by simp
next
  case (Cons l ls)
  then show ?case
    by (cases l) (auto split: option.splits)
qed

lemma those_number_of:
  assumes "those (map number_of ls) = Some xs"
  shows "ls = map Number xs"
  using assms
proof (induction ls arbitrary: xs)
  case Nil
  then show ?case by simp
next
  case (Cons l ls)
  then show ?case
    by (cases l) (auto split: option.splits)
qed

lemma those_text_of_all:
  assumes "\<forall>l\<in>set ls. is_text l"
  shows "\<exists>ts. those (map text_of ls) = Some ts"
  using assms
proof (induction ls)
  case Nil
  show ?case by simp
next
  case (Cons l ls)
  then show ?case
    by (cases l) auto
qed

lemma those_number_of_all:
  assumes "\<forall>l\<in>set ls. is_number l"
  shows "\<exists>xs. those (map number_of ls) = Some xs"
  using assms
proof (induction ls)
  case Nil
  show ?case by simp
next
  case (Cons l ls)
  then show ?case
    by (cases l) auto
qed

lemma py_sorted_mset:
  assumes "py_sorted rt ls = Inr ks"
  shows "mset ks = mset ls"
proof (cases "length ls \<le> 1")
  case True
  with assms show ?thesis
    by (simp add: py_sorted_def)
next
  case long: False
  show ?thesis
  proof (cases "those (map text_of ls)")
    case (Some ts)
    then have "ks = map Text (sort ts)"
      using assms long by (simp add: py_sorted_def)
    then show ?thesis
      using those_text_of [OF Some] by simp
  next
    case no_text: None
    show ?thesis
    proof (cases "those (map number_of ls)")
      case (Some xs)
      then have "ks = map Number (sort xs)"
        using assms long no_text by (simp add: py_sorted_def)
      then show ?thesis
        using those_number_of [OF Some] by simp
    next
      case None
      then show ?thesis
        using assms long no_text by (auto simp: py_sorted_def split: if_splits)
    qed
  qed
qed

lemma py_sorted_returns:
  assumes "(\<forall>l\<in>set ls. is_text l) \<or> (\<forall>l\<in>set ls. is_number l)"
  shows "\<exists>ks. py_sorted rt ls = Inr ks"
proof (cases "\<forall>l\<in>set ls. is_text l")
  case True
  then obtain ts where "those (map text_of ls) = Some ts"
    using those_text_of_all by blast
  then show ?thesis
    by (simp add: py_sorted_def)
next
  case False
  with assms have "\<forall>l\<in>set ls. is_number l"
    by blast
  then obtain xs where "those (map number_of ls) = Some xs"
    using those_number_of_all by blast
  then show ?thesis
    by (auto simp: py_sorted_def split: option.splits)
qed

subsection \<open>Rows of the join and of the breakdown\<close>

lemma merge_left_created:
  assumes "r \<in> set (merge_left rt int64 rows resolutions)"
  shows "\<exists>i cdt. (i, cdt) \<in> set rows \<and> created r = created i"
proof -
  from assms obtain i cdt where mem: "(i, cdt) \<in> set rows"
    and r: "r \<in> set (case filter (\<lambda>l. id_col l = resolution i) resolutions of
                        [] \<Rightarrow> [derive rt int64 i cdt None]
                      | ms \<Rightarrow> map (\<lambda>l. derive rt int64 i cdt (key_col l)) ms)"
    by (auto simp: merge_left_def)
  from r have "created r = created i"
    by (auto simp: derive_def split: list.splits)
  with mem show ?thesis
    by blast
qed

lemma sum_list_indicator:
  assumes "distinct ks"
  shows "sum_list (map (\<lambda>k. if a = k \<and> P k then 1 else 0) ks) =
         (if a \<in> set ks \<and> P a then 1 else (0::nat))"
  using assms by (induction ks) auto

lemma category_sizes_sum:
  assumes "distinct ks" and "f ` set xs \<subseteq> set ks"
  shows "sum_list (map (\<lambda>k. length (filter (\<lambda>x. f x = k \<and> P k) xs)) ks) =
         length (filter (\<lambda>x. P (f x)) xs)"
  using assms(2)
proof (induction xs)
  case Nil
  show ?case by simp
next
  case (Cons x xs)
  have split: "length (filter (\<lambda>y. f y = k \<and> P k) (x # xs)) =
      (if f x = k \<and> P k then 1 else 0) + length (filter (\<lambda>y. f y = k \<and> P k) xs)" for k
    by simp
  have "sum_list (map (\<lambda>k. length (filter (\<lambda>y. f y = k \<and> P k) (x # xs))) ks) =
      sum_list (map (\<lambda>k. if f x = k \<and> P k then 1 else 0) ks) +
      sum_list (map (\<lambda>k. length (filter (\<lambda>y. f y = k \<and> P k) xs)) ks)"
    unfolding split by (simp add: sum_list_addf)
  also have "\<dots> = (if P (f x) then 1 else 0) + length (filter (\<lambda>x. P (f x)) xs)"
    using Cons sum_list_indicator [OF assms(1), of "f x" P] by simp
  finally show ?case
    by simp
qed

lemma unique_set: "set (unique xs) = set xs" and unique_distinct: "distinct (unique xs)"
  by (simp_all add: unique_def)

lemma breakdown_totals:
  assumes "get_metrics_by_category rt df = Inr rows"
  shows "sum_list (map c_total rows) = int (length (filter (\<lambda>r. category r \<noteq> Missing) df))"
proof -
  from assms obtain ks where ks: "py_sorted rt (unique (map category df)) = Inr ks"
    and rows: "rows = map (category_row df) ks"
    by (auto simp: get_metrics_by_category_def split: sum.splits)
  have m: "mset ks = mset (unique (map category df))"
    using py_sorted_mset [OF ks] .
  have d: "distinct ks"
    using m unique_distinct [of "map category df"] by (metis mset_eq_imp_distinct_iff)
  have s: "category ` set df \<subseteq> set ks"
    using mset_eq_setD [OF m] by (simp add: unique_set)
  have "sum_list (map c_total rows) =
      sum_list (map (\<lambda>k. int (length (filter (\<lambda>r. category r = k \<and> k \<noteq> Missing) df))) ks)"
    by (simp add: rows category_row_def Let_def comp_def label_eq_iff)
  also have "\<dots> = int (sum_list (map (\<lambda>k. length (filter (\<lambda>r. category r = k \<and> k \<noteq> Missing) df)) ks))"
    by (induction ks) simp_all
  also have "\<dots> = int (length (filter (\<lambda>r. category r \<noteq> Missing) df))"
    using category_sizes_sum [OF d s, of "\<lambda>k. k \<noteq> Missing"] by simp
  finally show ?thesis .
qed

lemma breakdown_returns:
  assumes "(\<forall>r\<in>set df. is_text (category r)) \<or> (\<forall>r\<in>set df. is_number (category r))"
  shows "\<exists>rows. get_metrics_by_category rt df = Inr rows"
proof -
  from assms have "(\<forall>l\<in>set (unique (map category df)). is_text l) \<or>
      (\<forall>l\<in>set (unique (map category df)). is_number l)"
    by (auto simp: unique_set)
  then obtain ks where "py_sorted rt (unique (map category df)) = Inr ks"
    using py_sorted_returns by blast
  then show ?thesis
    by (simp add: get_metrics_by_category_def)
qed

subsection \<open>Facts about the sample run\<close>

lemma example_table_nonempty: "example_table \<noteq> []"
  by (simp add: example_table_def)

lemma resolved_subset_example_nonempty: "resolved_subset example_table \<noteq> []"
  using resolved_subset_example by auto

lemma resolved_subset_example_length: "length (resolved_subset example_table) = 5"
  using length_map [of days_to_resolve "resolved_subset example_table"]
  by (simp add: resolved_subset_example)

lemma breakdown_example:
  "get_metrics_by_category example_runtime example_table =
   Inr [category_row example_table (Text ''Bug''),
        category_row example_table (Text ''Feature''),
        category_row example_table (Text ''Task'')]"
proof -
  have u: "unique (map category example_table) = [Text ''Bug'', Text ''Task'', Text ''Feature'']"
    by (simp add: example_table_def unique_def)
  have "py_sorted example_runtime [Text ''Bug'', Text ''Task'', Text ''Feature''] =
      Inr [Text ''Bug'', Text ''Feature'', Text ''Task'']"
    by (simp add: py_sorted_def)
  then show ?thesis
    by (simp add: get_metrics_by_category_def u)
qed

text \<open>Text next to a missing category: the breakdown raises.\<close>

lemma breakdown_half_labelled:
  "get_metrics_by_category example_runtime half_labelled_table = Inl TypeError"
  by (simp add: get_metrics_by_category_def py_sorted_def unique_def half_labelled_table_def)

section \<open>The claims\<close>

subsection \<open>The worked example of the SLA percentages\<close>

text \<open>
  Claim C1, as amended. For every table whose resolved subset has elapsed days exactly
  \<open>[1, 2, 3, 10, 31]\<close>, \<^verbatim>\<open>calculate_metrics\<close> returns, with \<^verbatim>\<open>sla_30day\<close> = 80,
  \<^verbatim>\<open>sla_7day\<close> = 60 and \<^verbatim>\<open>long_30pct\<close> = 20: four of the five records were resolved
  within 30 days, three within 7, and one took longer than 30.
\<close>

theorem sla_example:
  assumes "map days_to_resolve (resolved_subset df) = [Some 1, Some 2, Some 3, Some 10, Some 31]"
  shows "\<exists>m. calculate_metrics df = Inr m \<and>
           m_sla_30day m = Val 80 \<and> m_sla_7day m = Val 60 \<and> m_long_30pct m = Val 20"
proof -
  from assms have len: "length (resolved_subset df) = 5"
    using length_map [of days_to_resolve "resolved_subset df"] by simp
  then have "df \<noteq> []"
    by (auto simp: resolved_subset_def)
  then obtain m where m: "calculate_metrics df = Inr m"
    using calculate_metrics_returns by blast
  have "m_sla_30day m = Val 80"
    unfolding calculate_metrics_sla(5) [OF m] assms len
    by (simp add: count_le_def np_true_divide_def)
  moreover have "m_sla_7day m = Val 60"
    unfolding calculate_metrics_sla(3) [OF m] assms len
    by (simp add: count_le_def np_true_divide_def)
  moreover have "m_long_30pct m = Val 20"
    unfolding calculate_metrics_sla(6) [OF m] assms len
    by (simp add: count_gt_def np_true_divide_def)
  ultimately show ?thesis
    using m by blast
qed

text \<open>The cleaned table of the sample run is such a table.\<close>

theorem sla_example_witness:
  "map days_to_resolve (resolved_subset example_table) = [Some 1, Some 2, Some 3, Some 10, Some 31] \<and>
   map_sum id m_sla_30day (calculate_metrics example_table) = Inr (Val 80) \<and>
   map_sum id m_sla_7day (calculate_metrics example_table) = Inr (Val 60) \<and>
   map_sum id m_long_30pct (calculate_metrics example_table) = Inr (Val 20)"
proof -
  obtain m where "calculate_metrics example_table = Inr m"
    and "m_sla_30day m = Val 80" and "m_sla_7day m = Val 60" and "m_long_30pct m = Val 20"
    using sla_example [OF resolved_subset_example] by blast
  then show ?thesis
    using resolved_subset_example by simp
qed

text \<open>
  Claim C1 as stated gives \<^verbatim>\<open>sla_30day\<close> = 100 for these elapsed days. On the sample
  table the code returns 80: the record resolved after 31 days is not within 30.
\<close>

theorem sla_30day_not_100:
  "map days_to_resolve (resolved_subset example_table) = [Some 1, Some 2, Some 3, Some 10, Some 31] \<and>
   map_sum id m_sla_30day (calculate_metrics example_table) \<noteq> Inr (Val 100)"
proof -
  obtain m where m: "calculate_metrics example_table = Inr m"
    using calculate_metrics_returns [of example_table] by (auto simp: example_table_def)
  have "length (resolved_subset example_table) = 5"
    using length_map [of days_to_resolve "resolved_subset example_table"]
    by (simp add: resolved_subset_example)
  then have "m_sla_30day m = Val 80"
    unfolding calculate_metrics_sla(5) [OF m] resolved_subset_example
    by (simp add: count_le_def np_true_divide_def)
  then show ?thesis
    using m resolved_subset_example by simp
qed

subsection \<open>The resolved count of a category\<close>

text \<open>
  Claim C2 says that the resolved count of a category in the breakdown, and hence its
  resolution rate, is the number of the category's records in the resolved subset. On
  the sample table the code departs from it. One \<open>Bug\<close> record was resolved a day
  before its creation; the breakdown counts it and reports 4 resolved of 4, a rate of
  100, where the resolved subset holds 3 \<open>Bug\<close> records and \<^verbatim>\<open>calculate_metrics\<close> on
  the \<open>Bug\<close> rows alone (as \<^verbatim>\<open>analyze_single_category\<close> calls it) reports 3 resolved
  of 4, a rate of 75.
\<close>

theorem category_resolved_differs_from_subset:
  "map_sum id (map (\<lambda>cm. (c_category cm, c_total cm, c_resolved cm, c_resolution_rate cm)))
     (get_metrics_by_category example_runtime example_table) =
   Inr [(Text ''Bug'', 4, 4, 100), (Text ''Feature'', 1, 1, 100), (Text ''Task'', 2, 1, 50)] \<and>
   length (filter (\<lambda>r. label_eq (category r) (Text ''Bug'')) (resolved_subset example_table)) = 3 \<and>
   map_sum id m_total
     (calculate_metrics (filter (\<lambda>r. label_eq (category r) (Text ''Bug'')) example_table)) = Inr 4 \<and>
   map_sum id m_resolved
     (calculate_metrics (filter (\<lambda>r. label_eq (category r) (Text ''Bug'')) example_table)) = Inr 3 \<and>
   map_sum id m_resolution_rate
     (calculate_metrics (filter (\<lambda>r. label_eq (category r) (Text ''Bug'')) example_table)) = Inr 75"
proof -
  define bugs where "bugs = filter (\<lambda>r. label_eq (category r) (Text ''Bug'')) example_table"
  have rows: "map (\<lambda>cm. (c_category cm, c_total cm, c_resolved cm, c_resolution_rate cm))
      [category_row example_table (Text ''Bug''), category_row example_table (Text ''Feature''),
       category_row example_table (Text ''Task'')] =
      [(Text ''Bug'', 4, 4, 100), (Text ''Feature'', 1, 1, 100), (Text ''Task'', 2, 1, 50)]"
    by (simp add: category_row_def Let_def example_table_def)
  have sub: "length (filter (\<lambda>r. label_eq (category r) (Text ''Bug'')) (resolved_subset example_table)) = 3"
    by (simp add: resolved_subset_def example_table_def nonneg_def)
  have len: "length bugs = 4" and rs: "length (resolved_subset bugs) = 3"
    by (simp_all add: bugs_def resolved_subset_def example_table_def nonneg_def)
  then have "bugs \<noteq> []"
    by auto
  then obtain m where m: "calculate_metrics bugs = Inr m"
    using calculate_metrics_returns by blast
  have "m_total m = 4" and "m_resolved m = 3" and "m_resolution_rate m = 75"
    using calculate_metrics_counts [OF m] by (simp_all add: len rs)
  then show ?thesis
    unfolding breakdown_example using rows sub m by (simp add: bugs_def)
qed

subsection \<open>An empty resolved subset\<close>

text \<open>
  Claim C3. For every table with at least one row and an empty resolved subset,
  \<^verbatim>\<open>calculate_metrics\<close> returns and does not raise, and its mean, median and the four
  percentiles of the elapsed days are not-a-number.
\<close>

theorem empty_resolved_subset_gives_nan:
  assumes "df \<noteq> []" and "resolved_subset df = []"
  shows "\<exists>m. calculate_metrics df = Inr m \<and>
           m_avg_days m = NaN \<and> m_median_days m = NaN \<and>
           m_p25_days m = NaN \<and> m_p75_days m = NaN \<and> m_p90_days m = NaN \<and> m_p95_days m = NaN"
proof -
  obtain m where m: "calculate_metrics df = Inr m"
    using calculate_metrics_returns [OF assms(1)] by blast
  show ?thesis
    using m calculate_metrics_times [OF m] assms(2)
    by (simp add: series_mean_def series_median_def series_quantile_def)
qed

text \<open>A table of one open issue and one issue resolved before its creation.\<close>

theorem empty_resolved_subset_gives_nan_witness:
  "unresolved_table \<noteq> [] \<and> resolved_subset unresolved_table = [] \<and>
   map_sum id m_avg_days (calculate_metrics unresolved_table) = Inr NaN \<and>
   map_sum id m_median_days (calculate_metrics unresolved_table) = Inr NaN \<and>
   map_sum id m_p95_days (calculate_metrics unresolved_table) = Inr NaN"
proof -
  have ne: "unresolved_table \<noteq> []"
    by (simp add: unresolved_table_def)
  obtain m where "calculate_metrics unresolved_table = Inr m"
    and "m_avg_days m = NaN" and "m_median_days m = NaN" and "m_p95_days m = NaN"
    using empty_resolved_subset_gives_nan [OF ne resolved_subset_unresolved] by blast
  then show ?thesis
    using ne resolved_subset_unresolved by simp
qed

subsection \<open>SLA percentages grow with the threshold\<close>

text \<open>
  Claim C4. For every table with a non-empty resolved subset, \<^verbatim>\<open>calculate_metrics\<close>
  returns SLA percentages that are non-decreasing in the threshold:
  \<^verbatim>\<open>sla_1day <= sla_3day <= sla_7day <= sla_14day <= sla_30day\<close>.
\<close>

theorem sla_nondecreasing:
  assumes "resolved_subset df \<noteq> []"
  shows "\<exists>m. calculate_metrics df = Inr m \<and>
           float_le (m_sla_1day m) (m_sla_3day m) \<and> float_le (m_sla_3day m) (m_sla_7day m) \<and>
           float_le (m_sla_7day m) (m_sla_14day m) \<and> float_le (m_sla_14day m) (m_sla_30day m)"
proof -
  from assms have "df \<noteq> []"
    by (auto simp: resolved_subset_def)
  then obtain m where m: "calculate_metrics df = Inr m"
    using calculate_metrics_returns by blast
  from assms have n: "0 < int (length (resolved_subset df))"
    by simp
  have "float_le (m_sla_1day m) (m_sla_3day m)"
    unfolding calculate_metrics_sla [OF m] by (rule sla_ratio_mono [OF n count_le_mono]) simp
  moreover have "float_le (m_sla_3day m) (m_sla_7day m)"
    unfolding calculate_metrics_sla [OF m] by (rule sla_ratio_mono [OF n count_le_mono]) simp
  moreover have "float_le (m_sla_7day m) (m_sla_14day m)"
    unfolding calculate_metrics_sla [OF m] by (rule sla_ratio_mono [OF n count_le_mono]) simp
  moreover have "float_le (m_sla_14day m) (m_sla_30day m)"
    unfolding calculate_metrics_sla [OF m] by (rule sla_ratio_mono [OF n count_le_mono]) simp
  ultimately show ?thesis
    using m by blast
qed

text \<open>On the sample table the five percentages are 20, 60, 60, 80 and 80.\<close>

theorem sla_nondecreasing_witness:
  "resolved_subset example_table \<noteq> [] \<and>
   map_sum id m_sla_1day (calculate_metrics example_table) = Inr (Val 20) \<and>
   map_sum id m_sla_3day (calculate_metrics example_table) = Inr (Val 60) \<and>
   map_sum id m_sla_7day (calculate_metrics example_table) = Inr (Val 60) \<and>
   map_sum id m_sla_14day (calculate_metrics example_table) = Inr (Val 80) \<and>
   map_sum id m_sla_30day (calculate_metrics example_table) = Inr (Val 80) \<and>
   float_le (Val 20) (Val 60) \<and> float_le (Val 60) (Val 60) \<and>
   float_le (Val 60) (Val 80) \<and> float_le (Val 80) (Val 80)"
proof -
  obtain m where m: "calculate_metrics example_table = Inr m"
    and le: "float_le (m_sla_1day m) (m_sla_3day m)" "float_le (m_sla_3day m) (m_sla_7day m)"
      "float_le (m_sla_7day m) (m_sla_14day m)" "float_le (m_sla_14day m) (m_sla_30day m)"
    using sla_nondecreasing [OF resolved_subset_example_nonempty] by blast
  note s = calculate_metrics_sla [OF m, unfolded resolved_subset_example resolved_subset_example_length]
  have v: "m_sla_1day m = Val 20" "m_sla_3day m = Val 60" "m_sla_7day m = Val 60"
    "m_sla_14day m = Val 80" "m_sla_30day m = Val 80"
    unfolding s by (simp_all add: count_le_def np_true_divide_def)
  show ?thesis
    using le resolved_subset_example_nonempty unfolding v by (simp add: m v)
qed

subsection \<open>Percentiles grow with the rank\<close>

text \<open>
  Claim C5. For every table with a non-empty resolved subset, the percentiles that
  \<^verbatim>\<open>calculate_metrics\<close> returns are ordered:
  \<^verbatim>\<open>p25_days <= median_days <= p75_days <= p90_days <= p95_days\<close>.
\<close>

theorem percentiles_nondecreasing:
  assumes "resolved_subset df \<noteq> []"
  shows "\<exists>m. calculate_metrics df = Inr m \<and>
           float_le (m_p25_days m) (m_median_days m) \<and>
           float_le (m_median_days m) (m_p75_days m) \<and>
           float_le (m_p75_days m) (m_p90_days m) \<and>
           float_le (m_p90_days m) (m_p95_days m)"
proof -
  from assms have "df \<noteq> []"
    by (auto simp: resolved_subset_def)
  then obtain m where m: "calculate_metrics df = Inr m"
    using calculate_metrics_returns by blast
  define days where "days = map days_to_resolve (resolved_subset df)"
  have ne: "dropna days \<noteq> []"
    using assms dropna_resolved_subset [of df] by (auto simp: days_def)
  note t = calculate_metrics_times [OF m, folded days_def]
  have "float_le (m_p25_days m) (m_median_days m)"
    unfolding t series_median_quantile by (rule series_quantile_mono [OF ne]) simp_all
  moreover have "float_le (m_median_days m) (m_p75_days m)"
    unfolding t series_median_quantile by (rule series_quantile_mono [OF ne]) simp_all
  moreover have "float_le (m_p75_days m) (m_p90_days m)"
    unfolding t by (rule series_quantile_mono [OF ne]) simp_all
  moreover have "float_le (m_p90_days m) (m_p95_days m)"
    unfolding t by (rule series_quantile_mono [OF ne]) simp_all
  ultimately show ?thesis
    using m by blast
qed

text \<open>On the sample table they are 2, 3, 10, 22.6 and 26.8.\<close>

theorem percentiles_nondecreasing_witness:
  "resolved_subset example_table \<noteq> [] \<and>
   map_sum id m_p25_days (calculate_metrics example_table) = Inr (Val 2) \<and>
   map_sum id m_median_days (calculate_metrics example_table) = Inr (Val 3) \<and>
   map_sum id m_p75_days (calculate_metrics example_table) = Inr (Val 10) \<and>
   map_sum id m_p90_days (calculate_metrics example_table) = Inr (Val (113 / 5)) \<and>
   map_sum id m_p95_days (calculate_metrics example_table) = Inr (Val (134 / 5)) \<and>
   float_le (Val 2) (Val 3) \<and> float_le (Val 3) (Val 10) \<and>
   float_le (Val 10) (Val (113 / 5)) \<and> float_le (Val (113 / 5)) (Val (134 / 5))"
proof -
  obtain m where m: "calculate_metrics example_table = Inr m"
    and le: "float_le (m_p25_days m) (m_median_days m)" "float_le (m_median_days m) (m_p75_days m)"
      "float_le (m_p75_days m) (m_p90_days m)" "float_le (m_p90_days m) (m_p95_days m)"
    using percentiles_nondecreasing [OF resolved_subset_example_nonempty] by blast
  note t = calculate_metrics_times [OF m, unfolded resolved_subset_example]
  have srt: "sort (dropna [Some 1, Some 2, Some 3, Some 10, Some 31]) = [1, 2, 3, 10, 31::real]"
    by simp
  have v: "m_p25_days m = Val 2" "m_median_days m = Val 3" "m_p75_days m = Val 10"
    "m_p90_days m = Val (113 / 5)" "m_p95_days m = Val (134 / 5)"
    unfolding t series_quantile_def series_median_def Let_def srt
    by (simp_all add: lerp_def Let_def)
  show ?thesis
    using le resolved_subset_example_nonempty unfolding v by (simp add: m v)
qed

subsection \<open>The validity floor of the creation timestamp\<close>

text \<open>
  Claim C6. For every pair of input tables, every record of the cleaned table that
  \<^verbatim>\<open>load_data\<close> returns has a creation timestamp strictly above 1,000,000,000,000
  milliseconds; a row at or below the floor never appears. This holds whatever the
  runtime converts.
\<close>

theorem cleaned_rows_above_floor:
  assumes "load_data rt fs issues_csv resolutions_csv = Inr df" and "r \<in> set df"
  shows "1000000000000 < created r"
proof -
  from assms(1) obtain int64 issues resolutions created_dts where
    df: "df = merge_left rt int64
           (zip (filter (\<lambda>i. created i > 1000000000000) issues) created_dts) resolutions"
    by (auto simp: load_data_def Let_def split: sum.splits)
  from assms(2) obtain i cdt where
    mem: "(i, cdt) \<in> set (zip (filter (\<lambda>i. created i > 1000000000000) issues) created_dts)"
    and eq: "created r = created i"
    unfolding df using merge_left_created by blast
  from mem have "i \<in> set (filter (\<lambda>i. created i > 1000000000000) issues)"
    by (rule set_zip_leftD)
  then show ?thesis
    by (simp add: eq)
qed

text \<open>The sample run: eight issues, one of them exactly on the floor, seven cleaned rows.\<close>

theorem cleaned_rows_above_floor_witness:
  "load_data example_runtime example_fs ''data/issues.csv'' ''data/resolutions.csv'' =
     Inr example_table \<and>
   hd example_table \<in> set example_table \<and>
   1000000000000 < created (hd example_table) \<and>
   length example_issues = 8 \<and> length example_table = 7"
proof -
  have mem: "hd example_table \<in> set example_table"
    by (simp add: example_table_def)
  show ?thesis
    using cleaned_rows_above_floor [OF load_data_example mem] load_data_example mem
    by (simp add: example_issues_def) (simp add: example_table_def)
qed

subsection \<open>Counts and resolution rate\<close>

text \<open>
  Claim C7. For every table with at least one row, \<^verbatim>\<open>calculate_metrics\<close> returns with
  \<^verbatim>\<open>total\<close> the number of rows, \<^verbatim>\<open>open + resolved = total\<close>, and
  \<^verbatim>\<open>resolution_rate = resolved / total * 100\<close>, which lies between 0 and 100.
\<close>

theorem counts_and_rate:
  assumes "df \<noteq> []"
  shows "\<exists>m. calculate_metrics df = Inr m \<and>
           m_total m = int (length df) \<and>
           m_open m + m_resolved m = m_total m \<and>
           m_resolution_rate m = real_of_int (m_resolved m) / real_of_int (m_total m) * 100 \<and>
           0 \<le> m_resolution_rate m \<and> m_resolution_rate m \<le> 100"
proof -
  obtain m where m: "calculate_metrics df = Inr m"
    using calculate_metrics_returns [OF assms] by blast
  note c = calculate_metrics_counts [OF m]
  have le: "length (resolved_subset df) \<le> length df"
    by (simp add: resolved_subset_def)
  have pos: "0 < length df"
    using assms by simp
  have rate: "m_resolution_rate m = real_of_int (m_resolved m) / real_of_int (m_total m) * 100"
    by (simp add: c)
  define x where "x = real (length (resolved_subset df)) / real (length df)"
  have rx: "m_resolution_rate m = x * 100"
    by (simp add: c(5) x_def)
  have "x \<le> 1" and "0 \<le> x"
    using le pos by (simp_all add: x_def)
  then have "0 \<le> m_resolution_rate m" and "m_resolution_rate m \<le> 100"
    unfolding rx by linarith+
  then show ?thesis
    using m rate by (simp add: c)
qed

text \<open>The sample table: 7 rows, 5 resolved, 2 open, a rate of 500/7 percent.\<close>

theorem counts_and_rate_witness:
  "example_table \<noteq> [] \<and>
   map_sum id m_total (calculate_metrics example_table) = Inr 7 \<and>
   map_sum id m_resolved (calculate_metrics example_table) = Inr 5 \<and>
   map_sum id m_open (calculate_metrics example_table) = Inr 2 \<and>
   map_sum id m_resolution_rate (calculate_metrics example_table) = Inr (500 / 7)"
proof -
  obtain m where m: "calculate_metrics example_table = Inr m"
    and tot: "m_total m = int (length example_table)"
    and sum: "m_open m + m_resolved m = m_total m"
    and rate: "m_resolution_rate m = real_of_int (m_resolved m) / real_of_int (m_total m) * 100"
    using counts_and_rate [OF example_table_nonempty] by blast
  have r: "m_resolved m = 5"
    using calculate_metrics_counts(3) [OF m] by (simp add: resolved_subset_example_length)
  have t: "m_total m = 7"
    unfolding tot by (simp add: example_table_def)
  have "m_open m = 2"
    using sum r t by simp
  moreover have "m_resolution_rate m = 500 / 7"
    unfolding rate r t by simp
  ultimately show ?thesis
    using example_table_nonempty m r t by simp
qed

subsection \<open>A missing input file\<close>

text \<open>
  Claim C8. When one of the two paths given to \<^verbatim>\<open>load_data\<close> has no file, it raises
  \<^verbatim>\<open>FileNotFoundError\<close>; and when one of the two files that \<^verbatim>\<open>main\<close> loads is missing,
  \<^verbatim>\<open>main\<close> catches the error and returns \<^verbatim>\<open>False\<close> without raising.
\<close>

theorem missing_file_is_handled:
  assumes "issues_files fs issues_csv = None \<or> resolutions_files fs resolutions_csv = None"
    and "issues_files (files w) ''data/issues.csv'' = None \<or>
         resolutions_files (files w) ''data/resolutions.csv'' = None"
  shows "load_data rt fs issues_csv resolutions_csv = Inl FileNotFoundError \<and> main w = Inr False"
proof -
  have *: "load_data l f a b = Inl FileNotFoundError"
    if "issues_files f a = None \<or> resolutions_files f b = None" for l f a b
    using that by (auto simp: load_data_def read_csv_def split: option.splits)
  show ?thesis
    using * [OF assms(1)] * [OF assms(2)] by (simp add: main_def)
qed

text \<open>No files at all, and the sample files with a wrong second path.\<close>

theorem missing_file_is_handled_witness:
  "load_data example_runtime empty_fs ''data/issues.csv'' ''data/resolutions.csv'' =
     Inl FileNotFoundError \<and>
   load_data example_runtime example_fs ''data/issues.csv'' ''nowhere.csv'' =
     Inl FileNotFoundError \<and>
   main \<lparr>files = empty_fs, libraries = example_runtime, renders = (\<lambda>formats df. True)\<rparr> =
     Inr False"
proof -
  define w where
    "w = \<lparr>files = empty_fs, libraries = example_runtime, renders = (\<lambda>formats df. True)\<rparr>"
  have a: "issues_files empty_fs ''data/issues.csv'' = None \<or>
           resolutions_files empty_fs ''data/resolutions.csv'' = None"
    by (simp add: empty_fs_def)
  have b: "issues_files example_fs ''data/issues.csv'' = None \<or>
           resolutions_files example_fs ''nowhere.csv'' = None"
    by (simp add: example_fs_def)
  have c: "issues_files (files w) ''data/issues.csv'' = None \<or>
           resolutions_files (files w) ''data/resolutions.csv'' = None"
    by (simp add: w_def empty_fs_def)
  show ?thesis
    using missing_file_is_handled [OF a c, of example_runtime]
      missing_file_is_handled [OF b c, of example_runtime]
    by (simp add: w_def)
qed

subsection \<open>Category totals\<close>

text \<open>
  Claim C9, as amended. Whenever \<^verbatim>\<open>get_metrics_by_category\<close> returns, the \<^verbatim>\<open>total\<close>
  values of the breakdown sum to the number of rows whose category is not missing. In
  particular, for every cleaned table in which every row has a text category, or every
  row a numeric one, the breakdown is returned and its totals sum, over all categories,
  to the number of rows of the table.
\<close>

theorem category_totals_sum:
  "(get_metrics_by_category rt df = Inr rows \<longrightarrow>
      sum_list (map c_total rows) = int (length (filter (\<lambda>r. category r \<noteq> Missing) df))) \<and>
   ((\<forall>r\<in>set df. is_text (category r)) \<or> (\<forall>r\<in>set df. is_number (category r)) \<longrightarrow>
      (\<exists>totals. map_sum id (map c_total) (get_metrics_by_category rt df) = Inr totals \<and>
         sum_list totals = int (length df)))"
proof (intro conjI impI)
  assume "get_metrics_by_category rt df = Inr rows"
  then show "sum_list (map c_total rows) = int (length (filter (\<lambda>r. category r \<noteq> Missing) df))"
    by (rule breakdown_totals)
next
  assume labelled: "(\<forall>r\<in>set df. is_text (category r)) \<or> (\<forall>r\<in>set df. is_number (category r))"
  then obtain rs where rs: "get_metrics_by_category rt df = Inr rs"
    using breakdown_returns by blast
  from labelled have "\<forall>r\<in>set df. category r \<noteq> Missing"
    by auto
  then have "filter (\<lambda>r. category r \<noteq> Missing) df = df"
    by (simp add: filter_id_conv)
  then have "sum_list (map c_total rs) = int (length df)"
    using breakdown_totals [OF rs] by simp
  then show "\<exists>totals. map_sum id (map c_total) (get_metrics_by_category rt df) = Inr totals \<and>
      sum_list totals = int (length df)"
    by (simp add: rs)
qed

text \<open>The sample table: 4 + 1 + 2 = 7.\<close>

theorem category_totals_sum_witness:
  "map_sum id (map c_total) (get_metrics_by_category example_runtime example_table) = Inr [4, 1, 2] \<and>
   sum_list [4, 1, 2] = int (length example_table) \<and>
   length (filter (\<lambda>r. category r \<noteq> Missing) example_table) = 7 \<and>
   length example_table = 7"
proof -
  have labelled: "(\<forall>r\<in>set example_table. is_text (category r)) \<or>
      (\<forall>r\<in>set example_table. is_number (category r))"
    by (simp add: example_table_def)
  have totals: "map_sum id (map c_total) (get_metrics_by_category example_runtime example_table) =
      Inr [4, 1, 2]"
    unfolding breakdown_example by (simp add: category_row_def Let_def example_table_def)
  have len: "length example_table = 7"
    by (simp add: example_table_def)
  have lab: "length (filter (\<lambda>r. category r \<noteq> Missing) example_table) = 7"
    by (simp add: example_table_def)
  from category_totals_sum [of example_runtime example_table
      "[category_row example_table (Text ''Bug''), category_row example_table (Text ''Feature''),
        category_row example_table (Text ''Task'')]"] labelled
  obtain ts where "map_sum id (map c_total) (get_metrics_by_category example_runtime example_table) = Inr ts"
    and "sum_list ts = int (length example_table)"
    by blast
  then have "sum_list [4, 1, 2] = int (length example_table)"
    using totals by simp
  then show ?thesis
    using totals len lab by simp
qed

text \<open>
  Claim C9 as stated covers every cleaned table. The cleaned table of an issues file
  whose one row has an empty category cell has one row, and its breakdown is a single
  row for the missing category with total 0: no row compares equal to a missing value.
\<close>

theorem missing_category_is_not_counted:
  "load_data example_runtime unlabelled_fs ''data/issues.csv'' ''data/resolutions.csv'' =
     Inr unlabelled_table \<and>
   map_sum id (map (\<lambda>cm. (c_category cm, c_total cm)))
     (get_metrics_by_category example_runtime unlabelled_table) = Inr [(Missing, 0)] \<and>
   map_sum id (\<lambda>rows. sum_list (map c_total rows))
     (get_metrics_by_category example_runtime unlabelled_table) = Inr 0 \<and>
   int (length unlabelled_table) = 1"
proof -
  have "get_metrics_by_category example_runtime unlabelled_table =
      Inr [category_row unlabelled_table Missing]"
    by (simp add: get_metrics_by_category_def py_sorted_def unique_def unlabelled_table_def)
  moreover have "c_total (category_row unlabelled_table Missing) = 0"
    and "c_category (category_row unlabelled_table Missing) = Missing"
    by (simp_all add: category_row_def Let_def unlabelled_table_def)
  moreover have "int (length unlabelled_table) = 1"
    by (simp add: unlabelled_table_def)
  ultimately show ?thesis
    using load_data_unlabelled by simp
qed

subsection \<open>The empty table\<close>

text \<open>
  Claim C10. On the table with no rows \<^verbatim>\<open>calculate_metrics\<close> raises
  \<^verbatim>\<open>ZeroDivisionError\<close> (from \<^verbatim>\<open>len(resolved) / total\<close>) and returns no dictionary;
  whenever it returns, the table has at least one row.
\<close>

theorem empty_table_raises:
  "calculate_metrics [] = Inl ZeroDivisionError \<and>
   ((\<exists>m. calculate_metrics df = Inr m) \<longrightarrow> df \<noteq> [])"
  using calculate_metrics_counts(1) by (auto simp: calculate_metrics_empty)

text \<open>It returns on the two-row table above, which is not empty.\<close>

theorem empty_table_raises_witness:
  "calculate_metrics [] = Inl ZeroDivisionError \<and>
   map_sum id m_total (calculate_metrics unresolved_table) = Inr 2 \<and>
   unresolved_table \<noteq> []"
proof -
  have "unresolved_table \<noteq> []"
    by (simp add: unresolved_table_def)
  then obtain m where m: "calculate_metrics unresolved_table = Inr m"
    using calculate_metrics_returns by blast
  then have ex: "\<exists>m. calculate_metrics unresolved_table = Inr m"
    by blast
  have "m_total m = 2"
    using calculate_metrics_counts(2) [OF m] by (simp add: unresolved_table_def)
  then show ?thesis
    using empty_table_raises [of unresolved_table] ex m by simp
qed

end
